theory Spec2Isabelle
  imports Complex_Main "HOL-Library.Word"
begin

section \<open>JSON values as the program uses them\<close>

text \<open>
  \<^verbatim>\<open>main.cpp\<close> keeps every message, request and response as a value of the JSON
  library's value type. The program only ever asks four things of such a value: whether
  it is an object holding a key (\<^verbatim>\<open>contains\<close>), the member under a key
  (\<^verbatim>\<open>operator[]\<close>), its text when it is converted to \<^verbatim>\<open>std::string\<close>, and its
  elements when it is iterated. An object is kept as an association list in the
  library's own order (its map is sorted by key, so the objects the program builds are
  written here with their keys sorted); lookup is \<^const>\<open>map_of\<close>.
\<close>

datatype json =
    JNull
  | JBoolean bool
  | JNumber rat
  | JString string
  | JArray "json list"
  | JObject "(string \<times> json) list"

text \<open>
  The library's exceptions: a parse error from \<^verbatim>\<open>json::parse\<close>, and type errors,
  told apart by the library's number (302: the value converted to a string is not a
  string; 305: \<^verbatim>\<open>operator[]\<close> with a key on a value that is neither an object nor
  null; 316: \<^verbatim>\<open>dump\<close> met a string that is not UTF-8).
\<close>

datatype json_exception = parse_error | type_error nat

fun contains :: "json \<Rightarrow> string \<Rightarrow> bool" where
  "contains (JObject members) key = (map_of members key \<noteq> None)"
| "contains _ key = False"

fun subscript :: "json \<Rightarrow> string \<Rightarrow> json_exception + json" where
  "subscript (JObject members) key =
     (case map_of members key of Some v \<Rightarrow> Inr v | None \<Rightarrow> Inr JNull)"
| "subscript JNull key = Inr JNull"
| "subscript _ key = Inl (type_error 305)"

fun get_string :: "json \<Rightarrow> json_exception + string" where
  "get_string (JString s) = Inr s"
| "get_string _ = Inl (type_error 302)"

text \<open>
  A range-based \<^verbatim>\<open>for\<close> over a value: the elements of an array, the member values of
  an object, nothing for null, and the value itself, once, for any other value.
\<close>

fun elements :: "json \<Rightarrow> json list" where
  "elements (JArray xs) = xs"
| "elements (JObject members) = map snd members"
| "elements JNull = []"
| "elements j = [j]"

section \<open>The outside world of one call\<close>

text \<open>
  What the program takes from libcurl, the JSON library and the C++ library is a
  parameter of the model: \<open>json_parse\<close> is \<^verbatim>\<open>json::parse\<close> (\<open>None\<close> when it throws
  its parse error), \<open>json_dump\<close> is \<^verbatim>\<open>dump()\<close> (\<open>None\<close> when it throws type error
  316), \<open>stoi\<close> is \<^verbatim>\<open>std::stoi\<close> (\<open>None\<close> when it throws), \<open>curl_easy_init\<close> tells
  whether a fresh handle could be made, \<open>get_tags\<close> is the outcome of the GET request
  to \<^verbatim>\<open>/api/tags\<close> and \<open>post_chat\<close> the outcome of the POST request to
  \<^verbatim>\<open>/api/chat\<close> for a given request body. Every theorem holds for every such world.
  What the program prints is not modelled.
\<close>

type_synonym CURLcode = nat

definition CURLE_OK :: CURLcode where
  "CURLE_OK = 0"

definition CURLE_COULDNT_RESOLVE_HOST :: CURLcode where
  "CURLE_COULDNT_RESOLVE_HOST = 6"

definition CURLE_COULDNT_CONNECT :: CURLcode where
  "CURLE_COULDNT_CONNECT = 7"

definition CURLE_OPERATION_TIMEDOUT :: CURLcode where
  "CURLE_OPERATION_TIMEDOUT = 28"

record curl_response =
  res :: CURLcode
  response_code :: int
  data :: string

record world =
  json_parse :: "string \<Rightarrow> json option"
  json_dump :: "json \<Rightarrow> string option"
  stoi :: "string \<Rightarrow> int option"
  curl_easy_init :: bool
  get_tags :: curl_response
  post_chat :: "string \<Rightarrow> curl_response"

section \<open>OllamaAssistant\<close>

text \<open>
  Of the member handle \<^verbatim>\<open>curl\<close> one thing lasts from one call to the next: the
  header list it holds as \<^verbatim>\<open>CURLOPT_HTTPHEADER\<close>. A fresh handle holds none.
  \<^verbatim>\<open>sendMessage\<close> gives the handle a list and frees the list after the request
  without taking it from the handle, which from then on holds a freed list. A request
  made with the handle in that state reads freed memory, and its behaviour is
  undefined.
\<close>

datatype curl_slist = NoList | FreedList

datatype fault = UseAfterFree

text \<open>
  The fields of the class, the handle by its header list. The exceptions that leave the
  class are \<^verbatim>\<open>std::runtime_error\<close>s, kept here by what their text is built from:
  \<^item> \<open>InitFailed\<close>: \<^verbatim>\<open>"Failed to initialize libcurl"\<close>;
  \<^item> \<open>HttpRequestFailed res\<close>: \<^verbatim>\<open>"HTTP request failed: "\<close>, the text libcurl has for
    \<open>res\<close>, and the hint to start the server;
  \<^item> \<open>ApiRequestFailed code body model\<close>: \<^verbatim>\<open>"Ollama API request failed with HTTP "\<close>,
    the status code, the body, and the hint to pull the model;
  \<^item> \<open>JsonParsingError e\<close>: \<^verbatim>\<open>"JSON parsing error: "\<close> and the text of the exception
    \<open>e\<close> of the JSON library that the handler caught;
  and \<open>JsonException e\<close>, an exception of the JSON library that no handler of the class
  catches.
\<close>

record assistant =
  api_url :: string
  model_name :: string
  conversation_history :: "json list"
  streaming_enabled :: bool
  curl_httpheader :: curl_slist

datatype exception =
    InitFailed
  | HttpRequestFailed CURLcode
  | ApiRequestFailed int string string
  | JsonParsingError json_exception
  | JsonException json_exception

definition system_message :: json where
  "system_message = JObject
     [(''content'', JString ''You are a helpful terminal assistant. Provide clear, concise responses focused on programming and technical help.''),
      (''role'', JString ''system'')]"

definition user_message :: "string \<Rightarrow> json" where
  "user_message message = JObject [(''content'', JString message), (''role'', JString ''user'')]"

definition assistant_message :: "string \<Rightarrow> json" where
  "assistant_message reply = JObject [(''content'', JString reply), (''role'', JString ''assistant'')]"

definition new_assistant :: "string \<Rightarrow> assistant" where
  "new_assistant model =
     \<lparr>api_url = ''http://localhost:11434/api/chat'', model_name = model,
      conversation_history = [system_message], streaming_enabled = True,
      curl_httpheader = NoList\<rparr>"

definition OllamaAssistant :: "bool \<Rightarrow> string \<Rightarrow> exception + assistant" where
  "OllamaAssistant curl model = (if \<not> curl then Inl InitFailed else Inr (new_assistant model))"

definition setStreamingEnabled :: "bool \<Rightarrow> assistant \<Rightarrow> assistant" where
  "setStreamingEnabled enabled a = a\<lparr>streaming_enabled := enabled\<rparr>"

definition isStreamingEnabled :: "assistant \<Rightarrow> bool" where
  "isStreamingEnabled a = streaming_enabled a"

definition setModel :: "string \<Rightarrow> assistant \<Rightarrow> assistant" where
  "setModel model a = a\<lparr>model_name := model\<rparr>"

definition getCurrentModel :: "assistant \<Rightarrow> string" where
  "getCurrentModel a = model_name a"

definition clearConversation :: "assistant \<Rightarrow> assistant" where
  "clearConversation a = a\<lparr>conversation_history := [] @ [system_message]\<rparr>"

text \<open>
  \<^verbatim>\<open>size() - 1\<close> in \<^verbatim>\<open>size_t\<close>, taken as 64 bits wide: the subtraction wraps.
\<close>

definition getConversationLength :: "assistant \<Rightarrow> 64 word" where
  "getConversationLength a = word_of_nat (length (conversation_history a)) - 1"

text \<open>
  \<^verbatim>\<open>checkOllamaConnection\<close> works on a handle of its own. Like every member function
  it either returns or throws; \<open>Inl\<close> is an exception.
\<close>

definition checkOllamaConnection :: "world \<Rightarrow> exception + bool" where
  "checkOllamaConnection w =
     (if \<not> curl_easy_init w then Inr False else Inr (res (get_tags w) = CURLE_OK))"

subsection \<open>getAvailableModels\<close>

text \<open>
  The loop over the entries pushes each name onto \<^verbatim>\<open>models\<close>; a conversion that
  throws leaves the loop for the handler, which returns what was pushed so far.
\<close>

fun collect_names :: "json list \<Rightarrow> string list \<Rightarrow> string list" where
  "collect_names [] models = models"
| "collect_names (model # rest) models =
     (if contains model ''name'' then
        (case subscript model ''name'' of
           Inl e \<Rightarrow> models
         | Inr name \<Rightarrow>
             (case get_string name of
                Inl e \<Rightarrow> models
              | Inr s \<Rightarrow> collect_names rest (models @ [s])))
      else collect_names rest models)"

text \<open>
  The request is made with the member handle, whose header list the function does not
  set: after a \<^verbatim>\<open>sendMessage\<close> that reached its request, the list is a freed one.
\<close>

definition getAvailableModels :: "world \<Rightarrow> assistant \<Rightarrow> fault + string list" where
  "getAvailableModels w a =
     (if curl_httpheader a = FreedList then Inl UseAfterFree
      else Inr
        (if res (get_tags w) = CURLE_OK then
           (case json_parse w (data (get_tags w)) of
              None \<Rightarrow> []
            | Some response_json \<Rightarrow>
                (if contains response_json ''models'' then
                   (case subscript response_json ''models'' of
                      Inl e \<Rightarrow> []
                    | Inr ms \<Rightarrow> collect_names (elements ms) [])
                 else []))
         else []))"

subsection \<open>sendMessage\<close>

definition chat_payload :: "assistant \<Rightarrow> json" where
  "chat_payload a = JObject
     [(''messages'', JArray (conversation_history a)),
      (''model'', JString (model_name a)),
      (''stream'', JBoolean (streaming_enabled a))]"

text \<open>
  Both decoding paths read the reply text the same way:
  \<^verbatim>\<open>j.contains("message") && j["message"].contains("content")\<close>, then the
  conversion of \<^verbatim>\<open>j["message"]["content"]\<close> to \<^verbatim>\<open>std::string\<close>. \<open>Inr None\<close>
  is the condition being false, \<open>Inl\<close> an exception of the library.
\<close>

definition message_content :: "json \<Rightarrow> json_exception + string option" where
  "message_content j =
     (if contains j ''message'' then
        (case subscript j ''message'' of
           Inl e \<Rightarrow> Inl e
         | Inr m \<Rightarrow>
             (if contains m ''content'' then
                (case subscript m ''content'' of
                   Inl e \<Rightarrow> Inl e
                 | Inr c \<Rightarrow>
                     (case get_string c of Inl e \<Rightarrow> Inl e | Inr s \<Rightarrow> Inr (Some s)))
              else Inr None))
      else Inr None)"

text \<open>
  \<^verbatim>\<open>std::getline\<close> on the rest of the stream: it fails when nothing is left, and
  otherwise gives the characters before the first newline and consumes that newline.
\<close>

definition getline :: "string \<Rightarrow> (string \<times> string) option" where
  "getline stream =
     (if stream = [] then None
      else Some (takeWhile (\<lambda>c. c \<noteq> CHR 0x0A) stream,
                 drop 1 (dropWhile (\<lambda>c. c \<noteq> CHR 0x0A) stream)))"

definition strip_data :: "string \<Rightarrow> string" where
  "strip_data line = (if take 6 line = ''data: '' then drop 6 line else line)"

text \<open>
  The body of the streaming loop for one line. The inner handler catches every
  exception of the library, prints a notice and goes on with the next line.
\<close>

definition stream_line :: "(string \<Rightarrow> json option) \<Rightarrow> string \<Rightarrow> string \<Rightarrow> string" where
  "stream_line parse line0 assistant_reply =
     (let line = strip_data line0 in
      if line = [] \<or> line = ''[DONE]'' then assistant_reply
      else
        (case parse line of
           None \<Rightarrow> assistant_reply
         | Some chunk \<Rightarrow>
             (case message_content chunk of
                Inl e \<Rightarrow> assistant_reply
              | Inr None \<Rightarrow> assistant_reply
              | Inr (Some content) \<Rightarrow> assistant_reply @ content)))"

function stream_loop :: "(string \<Rightarrow> json option) \<Rightarrow> string \<Rightarrow> string \<Rightarrow> string" where
  "stream_loop parse stream assistant_reply =
     (case getline stream of
        None \<Rightarrow> assistant_reply
      | Some (line, rest) \<Rightarrow>
          stream_loop parse rest (stream_line parse line assistant_reply))"
  by pat_completeness auto
termination
proof (relation "measure (\<lambda>(parse, stream, assistant_reply). length stream)")
  show "wf (measure (\<lambda>(parse, stream, assistant_reply). length stream))"
    by simp
next
  fix parse :: "string \<Rightarrow> json option" and stream assistant_reply :: string
    and x2 :: "string \<times> string" and line rest :: string
  assume "getline stream = Some x2" and "(line, rest) = x2"
  then have "stream \<noteq> []" and "rest = drop 1 (dropWhile (\<lambda>c. c \<noteq> CHR 0x0A) stream)"
    by (auto simp: getline_def split: if_splits)
  moreover have "length (dropWhile (\<lambda>c. c \<noteq> CHR 0x0A) stream) \<le> length stream"
    by (rule length_dropWhile_le)
  ultimately have "length rest < length stream"
    by (cases stream) auto
  then show "((parse, rest, stream_line parse line assistant_reply), (parse, stream, assistant_reply))
               \<in> measure (\<lambda>(parse, stream, assistant_reply). length stream)"
    by simp
qed

definition decode_reply :: "(string \<Rightarrow> json option) \<Rightarrow> bool \<Rightarrow> string \<Rightarrow> exception + string" where
  "decode_reply parse streaming body =
     (if streaming then Inr (stream_loop parse body [])
      else
        (case parse body of
           None \<Rightarrow> Inl (JsonParsingError parse_error)
         | Some response_json \<Rightarrow>
             (case message_content response_json of
                Inl e \<Rightarrow> Inl (JsonParsingError e)
              | Inr None \<Rightarrow> Inr []
              | Inr (Some content) \<Rightarrow> Inr content)))"

text \<open>
  The header list is made, given to the handle and, right after the request, freed
  (\<open>a2\<close>); every exit after the request leaves the handle with the freed list.
\<close>

definition sendMessage :: "world \<Rightarrow> string \<Rightarrow> assistant \<Rightarrow> (exception + string) \<times> assistant" where
  "sendMessage w message a =
     (let a1 = a\<lparr>conversation_history := conversation_history a @ [user_message message]\<rparr> in
      case json_dump w (chat_payload a1) of
        None \<Rightarrow> (Inl (JsonException (type_error 316)), a1)
      | Some json_string \<Rightarrow>
          (let response = post_chat w json_string;
               a2 = a1\<lparr>curl_httpheader := FreedList\<rparr> in
           if res response \<noteq> CURLE_OK then (Inl (HttpRequestFailed (res response)), a2)
           else if response_code response \<noteq> 200 then
             (Inl (ApiRequestFailed (response_code response) (data response) (model_name a2)), a2)
           else
             (case decode_reply (json_parse w) (streaming_enabled a2) (data response) of
                Inl e \<Rightarrow> (Inl e, a2)
              | Inr assistant_reply \<Rightarrow>
                  (Inr assistant_reply,
                   a2\<lparr>conversation_history :=
                        conversation_history a2 @ [assistant_message assistant_reply]\<rparr>))))"

section \<open>TerminalInterface\<close>

text \<open>
  The terminal owns the assistant and reads standard input, kept here as the lines
  still to come. \<^verbatim>\<open>std::getline\<close> on an exhausted input leaves the string empty.
\<close>

record terminal =
  assistant :: assistant
  cin :: "string list"

definition cin_getline :: "terminal \<Rightarrow> string \<times> terminal" where
  "cin_getline t = (case cin t of [] \<Rightarrow> ([], t) | input # rest \<Rightarrow> (input, t\<lparr>cin := rest\<rparr>))"

definition getInput :: "terminal \<Rightarrow> string \<times> terminal" where
  "getInput t = cin_getline t"

definition isCommand :: "string \<Rightarrow> bool" where
  "isCommand input = (input \<noteq> [] \<and> hd input = CHR ''/'')"

definition toggleStreaming :: "terminal \<Rightarrow> terminal" where
  "toggleStreaming t =
     t\<lparr>assistant := setStreamingEnabled (\<not> isStreamingEnabled (assistant t)) (assistant t)\<rparr>"

text \<open>
  The two commands that list the models make their request with the assistant's
  handle, so their behaviour is undefined where that of \<^const>\<open>getAvailableModels\<close> is
  (\<open>Inl\<close>).
\<close>

definition showAvailableModels :: "world \<Rightarrow> terminal \<Rightarrow> fault + terminal" where
  "showAvailableModels w t =
     (case getAvailableModels w (assistant t) of
        Inl f \<Rightarrow> Inl f
      | Inr models \<Rightarrow> Inr t)"

definition changeModel :: "world \<Rightarrow> terminal \<Rightarrow> fault + terminal" where
  "changeModel w t =
     (case getAvailableModels w (assistant t) of
        Inl f \<Rightarrow> Inl f
      | Inr models \<Rightarrow>
          if models = [] then Inr t
          else
            (case cin_getline t of
               (input, t1) \<Rightarrow>
                 if input = [] then Inr t1
                 else
                   (case stoi w input of
                      None \<Rightarrow> Inr t1
                    | Some choice \<Rightarrow>
                        if choice \<ge> 1 \<and> choice \<le> int (length models)
                        then Inr (t1\<lparr>assistant :=
                                      setModel (models ! nat (choice - 1)) (assistant t1)\<rparr>)
                        else Inr t1)))"

definition handleCommand :: "world \<Rightarrow> string \<Rightarrow> terminal \<Rightarrow> fault + bool \<times> terminal" where
  "handleCommand w command t =
     (if command = ''/help'' then Inr (True, t)
      else if command = ''/clear''
      then Inr (True, t\<lparr>assistant := clearConversation (assistant t)\<rparr>)
      else if command = ''/history'' then Inr (True, t)
      else if command = ''/models'' then
        (case showAvailableModels w t of Inl f \<Rightarrow> Inl f | Inr t1 \<Rightarrow> Inr (True, t1))
      else if command = ''/model'' then
        (case changeModel w t of Inl f \<Rightarrow> Inl f | Inr t1 \<Rightarrow> Inr (True, t1))
      else if command = ''/status'' then Inr (True, t)
      else if command = ''/stream'' then Inr (True, toggleStreaming t)
      else if command = ''/quit'' \<or> command = ''/exit'' then Inr (False, t)
      else Inr (True, t))"

text \<open>
  One pass through the body of the \<^verbatim>\<open>while (true)\<close> of \<^verbatim>\<open>run\<close>: the loop is left
  (\<open>Exit\<close>), goes on to the next input (\<open>Next\<close>), or goes on after the handler at the
  end of the body has caught and printed an exception (\<open>Caught\<close>). The pass has no
  defined behaviour (\<open>Inl\<close>) when the command it runs has none.
\<close>

datatype iteration = Exit | Next | Caught exception

fun continues :: "iteration \<Rightarrow> bool" where
  "continues Exit = False"
| "continues Next = True"
| "continues (Caught e) = True"

definition run_iteration :: "world \<Rightarrow> terminal \<Rightarrow> fault + iteration \<times> terminal" where
  "run_iteration w t =
     (case getInput t of
        (input, t1) \<Rightarrow>
          if input = [] then Inr (Next, t1)
          else if isCommand input then
            (case handleCommand w input t1 of
               Inl f \<Rightarrow> Inl f
             | Inr (False, t2) \<Rightarrow> Inr (Exit, t2)
             | Inr (True, t2) \<Rightarrow> Inr (Next, t2))
          else
            (case sendMessage w input (assistant t1) of
               (Inl e, a) \<Rightarrow> Inr (Caught e, t1\<lparr>assistant := a\<rparr>)
             | (Inr response, a) \<Rightarrow> Inr (Next, t1\<lparr>assistant := a\<rparr>)))"

definition goes_on :: "fault + iteration \<times> terminal \<Rightarrow> bool" where
  "goes_on pass = (case pass of Inl f \<Rightarrow> False | Inr (i, t) \<Rightarrow> continues i)"

section \<open>Sequences of calls\<close>

text \<open>
  The public operations that change an assistant, each \<^verbatim>\<open>sendMessage\<close> with the world
  it meets. A session is what a sequence of them makes of a freshly constructed
  assistant.
\<close>

datatype call =
    SendMessage world string
  | ClearConversation
  | SetModel string
  | SetStreamingEnabled bool

fun perform :: "call \<Rightarrow> assistant \<Rightarrow> assistant" where
  "perform (SendMessage w message) a = snd (sendMessage w message a)"
| "perform ClearConversation a = clearConversation a"
| "perform (SetModel model) a = setModel model a"
| "perform (SetStreamingEnabled enabled) a = setStreamingEnabled enabled a"

definition session :: "string \<Rightarrow> call list \<Rightarrow> assistant" where
  "session model calls = fold perform calls (new_assistant model)"

text \<open>The role of a message, and the turns among the messages of a history.\<close>

definition has_role :: "string \<Rightarrow> json \<Rightarrow> bool" where
  "has_role r m = (contains m ''role'' \<and> subscript m ''role'' = Inr (JString r))"

definition is_turn :: "json \<Rightarrow> bool" where
  "is_turn m = (has_role ''user'' m \<or> has_role ''assistant'' m)"

section \<open>The decoding rules in the specification's words\<close>

text \<open>
  The specification describes the streaming reply without a loop: split the body at
  newlines, strip the prefix, drop empty lines and the sentinel, decode each
  remaining line on its own, and concatenate. A line contributes the text of
  \<open>message.content\<close> when it parses and has that field, and nothing when it does
  not parse or has no such field. The specification does not say what a
  \<open>message.content\<close> that is not a string contributes; in \<open>spec_chunk\<close> it
  contributes nothing.
\<close>

fun spec_lines_from :: "string \<Rightarrow> string \<Rightarrow> string list" where
  "spec_lines_from line [] = [line]"
| "spec_lines_from line (c # cs) =
     (if c = CHR 0x0A then line # spec_lines_from [] cs
      else spec_lines_from (line @ [c]) cs)"

definition spec_lines :: "string \<Rightarrow> string list" where
  "spec_lines body = spec_lines_from [] body"

fun spec_field :: "json \<Rightarrow> string \<Rightarrow> json option" where
  "spec_field (JObject members) key = map_of members key"
| "spec_field _ key = None"

definition spec_chunk :: "(string \<Rightarrow> json option) \<Rightarrow> string \<Rightarrow> string" where
  "spec_chunk parse line =
     (case parse line of
        None \<Rightarrow> []
      | Some chunk \<Rightarrow>
          (case spec_field chunk ''message'' of
             None \<Rightarrow> []
           | Some m \<Rightarrow>
               (case spec_field m ''content'' of
                  None \<Rightarrow> []
                | Some (JString content) \<Rightarrow> content
                | Some other \<Rightarrow> [])))"

definition spec_stream_reply :: "(string \<Rightarrow> json option) \<Rightarrow> string \<Rightarrow> string" where
  "spec_stream_reply parse body =
     concat (map (spec_chunk parse)
       (filter (\<lambda>line. line \<noteq> [] \<and> line \<noteq> ''[DONE]'')
          (map (\<lambda>line. if take 6 line = ''data: '' then drop 6 line else line)
             (spec_lines body))))"

text \<open>
  What the specification's words make of a parsed value, as they stand: the reply
  text is the value of \<open>message.content\<close> when the field is present, and empty when
  it is absent.
\<close>

definition spec_content_is :: "json \<Rightarrow> string \<Rightarrow> bool" where
  "spec_content_is j text =
     (case spec_field j ''message'' of
        None \<Rightarrow> text = []
      | Some m \<Rightarrow>
          (case spec_field m ''content'' of
             None \<Rightarrow> text = []
           | Some content \<Rightarrow> content = JString text))"

section \<open>A serialisation that tells all values apart\<close>

text \<open>
  A stand-in for \<^verbatim>\<open>dump()\<close> in a world that has to tell requests apart: every value
  starts with a tag, numbers are in unary, strings carry their length, and arrays and
  objects are closed by a bracket that is no tag. Different values have different
  texts.
\<close>

definition encode_nat :: "nat \<Rightarrow> string" where
  "encode_nat n = replicate n (CHR ''1'') @ ''0''"

definition encode_int :: "int \<Rightarrow> string" where
  "encode_int i = (if i < 0 then CHR ''-'' else CHR ''+'') # encode_nat (nat \<bar>i\<bar>)"

definition encode_string :: "string \<Rightarrow> string" where
  "encode_string s = encode_nat (length s) @ s"

fun encode :: "json \<Rightarrow> string" where
  "encode JNull = ''n''"
| "encode (JBoolean b) = (if b then ''t'' else ''f'')"
| "encode (JNumber q) =
     CHR ''#'' # encode_int (fst (quotient_of q)) @ encode_int (snd (quotient_of q))"
| "encode (JString s) = CHR ''s'' # encode_string s"
| "encode (JArray xs) = CHR ''['' # concat (map encode xs) @ '']''"
| "encode (JObject members) =
     CHR ''{'' # concat (map (\<lambda>(key, v). CHR ''k'' # encode_string key @ encode v) members)
       @ ''}''"

abbreviation (input) encode_member :: "string \<times> json \<Rightarrow> string" where
  "encode_member \<equiv> (\<lambda>(key, v). CHR ''k'' # encode_string key @ encode v)"

section \<open>Worlds for running the model\<close>

text \<open>
  A world in which the JSON library parses the texts of a given table and rejects
  every other text, serialises every request as the same text, and both endpoints
  answer with the given response.
\<close>

definition answering :: "(string \<Rightarrow> json option) \<Rightarrow> curl_response \<Rightarrow> world" where
  "answering table response =
     \<lparr>json_parse = table, json_dump = (\<lambda>j. Some ''{}''), stoi = (\<lambda>s. None),
      curl_easy_init = True, get_tags = response, post_chat = (\<lambda>request. response)\<rparr>"

definition ok_response :: "string \<Rightarrow> curl_response" where
  "ok_response body = \<lparr>res = CURLE_OK, response_code = 200, data = body\<rparr>"

text \<open>
  The model listing in the specification's words: the name of each entry that has
  one, in the order of the array.
\<close>

definition spec_model_names :: "json list \<Rightarrow> string list" where
  "spec_model_names entries =
     concat (map (\<lambda>entry. case spec_field entry ''name'' of
                             Some (JString name) \<Rightarrow> [name]
                           | _ \<Rightarrow> []) entries)"

definition names_are_text :: "json list \<Rightarrow> bool" where
  "names_are_text entries =
     list_all (\<lambda>entry. case spec_field entry ''name'' of
                          None \<Rightarrow> True
                        | Some (JString name) \<Rightarrow> True
                        | Some other \<Rightarrow> False) entries"

text \<open>The chat endpoint answers 404; the server cannot be reached.\<close>

definition not_found_world :: world where
  "not_found_world = answering (\<lambda>text. None)
     \<lparr>res = CURLE_OK, response_code = 404, data = ''model not found''\<rparr>"

definition refused_world :: world where
  "refused_world = answering (\<lambda>text. None)
     \<lparr>res = CURLE_COULDNT_CONNECT, response_code = 0, data = []\<rparr>"

text \<open>
  A world that serialises with \<^const>\<open>encode\<close> and answers 404 to one request only,
  the payload with the model \<open>llama3.2\<close>, streaming on and the messages of a fresh
  assistant followed by the user message \<open>hi\<close>; for every other request the
  connection is refused.
\<close>

definition posting_world :: world where
  "posting_world =
     \<lparr>json_parse = (\<lambda>text. None), json_dump = (\<lambda>j. Some (encode j)), stoi = (\<lambda>s. None),
      curl_easy_init = True,
      get_tags = \<lparr>res = CURLE_COULDNT_CONNECT, response_code = 0, data = []\<rparr>,
      post_chat = (\<lambda>request.
        if request = encode (JObject
             [(''messages'', JArray [system_message, user_message ''hi'']),
              (''model'', JString ''llama3.2''),
              (''stream'', JBoolean True)])
        then \<lparr>res = CURLE_OK, response_code = 404, data = ''model not found''\<rparr>
        else \<lparr>res = CURLE_COULDNT_CONNECT, response_code = 0, data = []\<rparr>)\<rparr>"

text \<open>The model-listing endpoint is reached and answers 500.\<close>

definition server_error_world :: world where
  "server_error_world = answering (\<lambda>text. None)
     \<lparr>res = CURLE_OK, response_code = 500, data = ''Internal Server Error''\<rparr>"

text \<open>
  A listing of two models, and a user who types \<open>2\<close> when asked for a number.
\<close>

definition listing_world :: world where
  \<open>listing_world =
     (answering
        (\<lambda>text.
           if text = ''{"models":[{"name":"llama3.2"},{"name":"codellama"}]}''
           then Some (JObject [(''models'', JArray
                  [JObject [(''name'', JString ''llama3.2'')],
                   JObject [(''name'', JString ''codellama'')]])])
           else None)
        (ok_response ''{"models":[{"name":"llama3.2"},{"name":"codellama"}]}''))
     \<lparr>stoi := (\<lambda>s. if s = ''2'' then Some 2 else None)\<rparr>\<close>

text \<open>
  A streamed answer of four lines: one that is not JSON, two chunks (one with the
  \<^verbatim>\<open>data: \<close> prefix, one without) and the sentinel.
\<close>

definition hello_world :: world where
  \<open>hello_world = answering
     (\<lambda>text.
        if text = ''{"message":{"content":"Hel"}}''
        then Some (JObject [(''message'', JObject [(''content'', JString ''Hel'')])])
        else if text = ''{"message":{"content":"lo"}}''
        then Some (JObject [(''message'', JObject [(''content'', JString ''lo'')])])
        else None)
     (ok_response
        (''bad json'' @ CHR 0x0A #
         ''data: {"message":{"content":"Hel"}}'' @ CHR 0x0A #
         ''{"message":{"content":"lo"}}'' @ CHR 0x0A #
         ''data: [DONE]'' @ [CHR 0x0A]))\<close>

text \<open>An answer in one piece.\<close>

definition hi_there_world :: world where
  \<open>hi_there_world = answering
     (\<lambda>text.
        if text = ''{"message":{"content":"Hi there"}}''
        then Some (JObject [(''message'', JObject [(''content'', JString ''Hi there'')])])
        else None)
     (ok_response ''{"message":{"content":"Hi there"}}'')\<close>

text \<open>An answer of one line whose \<open>message.content\<close> is a number.\<close>

definition number_world :: world where
  \<open>number_world = answering
     (\<lambda>text.
        if text = ''{"message":{"content":5}}''
        then Some (JObject [(''message'', JObject [(''content'', JNumber 5)])])
        else None)
     (ok_response ''{"message":{"content":5}}'')\<close>

text \<open>A model listing whose second entry has a number for a name.\<close>

definition partial_names_world :: world where
  \<open>partial_names_world = answering
     (\<lambda>text.
        if text = ''{"models":[{"name":"a"},{"name":5},{"name":"b"}]}''
        then Some (JObject [(''models'', JArray
               [JObject [(''name'', JString ''a'')],
                JObject [(''name'', JNumber 5)],
                JObject [(''name'', JString ''b'')]])])
        else None)
     (ok_response ''{"models":[{"name":"a"},{"name":5},{"name":"b"}]}'')\<close>

section \<open>Evaluating the model\<close>

declare stream_loop.simps [simp del]

lemmas run_simps =
  stream_loop.simps session_def new_assistant_def sendMessage_def Let_def chat_payload_def decode_reply_def
  getline_def stream_line_def strip_data_def message_content_def answering_def
  ok_response_def CURLE_OK_def

section \<open>The history of a session\<close>

text \<open>
  Whatever the world answers, \<^const>\<open>sendMessage\<close> leaves the history in one of two
  shapes: the user message appended and an exception thrown, or the user message and
  the assistant message appended and the reply returned.
\<close>

lemma sendMessage_outcome:
  "(\<exists>e h. sendMessage w message a =
          (Inl e, a\<lparr>conversation_history := conversation_history a @ [user_message message],
                    curl_httpheader := h\<rparr>))
   \<or> (\<exists>reply. sendMessage w message a =
          (Inr reply, a\<lparr>conversation_history :=
             conversation_history a @ [user_message message, assistant_message reply],
             curl_httpheader := FreedList\<rparr>))"
proof (cases "json_dump w (chat_payload
    (a\<lparr>conversation_history := conversation_history a @ [user_message message]\<rparr>))")
  case None
  then have "sendMessage w message a =
      (Inl (JsonException (type_error 316)),
       a\<lparr>conversation_history := conversation_history a @ [user_message message],
         curl_httpheader := curl_httpheader a\<rparr>)"
    by (simp add: sendMessage_def)
  then show ?thesis by blast
next
  case (Some request)
  then show ?thesis
    by (auto simp: sendMessage_def Let_def split: sum.split)
qed

lemma is_turn_user: "is_turn (user_message message)"
  by (simp add: is_turn_def has_role_def user_message_def)

lemma is_turn_assistant: "is_turn (assistant_message reply)"
  by (simp add: is_turn_def has_role_def assistant_message_def)

lemma not_turn_system: "\<not> is_turn system_message"
  by (simp add: is_turn_def has_role_def system_message_def)

lemma turn_not_system: "is_turn m \<Longrightarrow> \<not> has_role ''system'' m"
  by (auto simp: is_turn_def has_role_def)

lemma session_snoc: "session model (calls @ [c]) = perform c (session model calls)"
  by (simp add: session_def)

lemma perform_history:
  assumes "conversation_history a = system_message # rest" and "list_all is_turn rest"
  shows "\<exists>rest'. conversation_history (perform c a) = system_message # rest'
                 \<and> list_all is_turn rest'"
proof (cases c)
  case (SendMessage w message)
  from sendMessage_outcome [of w message a] assms show ?thesis
    by (auto simp: SendMessage is_turn_user is_turn_assistant)
next
  case ClearConversation
  then show ?thesis by (simp add: clearConversation_def)
next
  case (SetModel model)
  with assms show ?thesis by (simp add: setModel_def)
next
  case (SetStreamingEnabled enabled)
  with assms show ?thesis by (simp add: setStreamingEnabled_def)
qed

lemma session_history:
  "\<exists>rest. conversation_history (session model calls) = system_message # rest
          \<and> list_all is_turn rest"
proof (induction calls rule: rev_induct)
  case Nil
  show ?case by (simp add: session_def new_assistant_def)
next
  case (snoc c calls)
  then show ?case using perform_history [of "session model calls" _ c]
    by (auto simp: session_snoc)
qed

lemma filter_turns: "list_all is_turn rest \<Longrightarrow> filter is_turn rest = rest"
  by (induction rest) auto

lemma filter_system: "list_all is_turn rest \<Longrightarrow> filter (has_role ''system'') rest = []"
  by (induction rest) (auto dest: turn_not_system)

text \<open>
  Claim C1. A construction that succeeds gives the assistant every session starts
  from. After any sequence of calls on a freshly constructed assistant (messages
  sent, whatever the server answered, the conversation cleared, the model or the
  streaming flag set), the message at index 0 is the system message, whose role is
  \<open>system\<close> and whose content is the fixed instruction text; it is the only message
  of the history with the role \<open>system\<close>; and clearing the conversation leaves
  exactly that one message.
\<close>

theorem system_message_invariant:
  "OllamaAssistant True model = Inr (session model [])
   \<and> conversation_history (session model calls) ! 0 = system_message
   \<and> subscript system_message ''role'' = Inr (JString ''system'')
   \<and> subscript system_message ''content'' = Inr (JString
        ''You are a helpful terminal assistant. Provide clear, concise responses focused on programming and technical help.'')
   \<and> filter (has_role ''system'') (conversation_history (session model calls)) = [system_message]
   \<and> conversation_history (clearConversation (session model calls)) = [system_message]"
proof -
  obtain rest where h: "conversation_history (session model calls) = system_message # rest"
    and t: "list_all is_turn rest"
    using session_history by blast
  have "has_role ''system'' system_message"
    by (simp add: has_role_def system_message_def)
  moreover have "OllamaAssistant True model = Inr (session model [])"
    by (simp add: OllamaAssistant_def session_def)
  ultimately show ?thesis
    using h t
    by (simp add: filter_system clearConversation_def) (simp add: system_message_def)
qed

lemma size_minus_one:
  assumes "n < 2 ^ 64"
  shows "unat (word_of_nat (Suc n) - 1 :: 64 word) = n"
proof -
  have "(word_of_nat (Suc n) - 1 :: 64 word) = word_of_nat n" by simp
  moreover have "unat (word_of_nat n :: 64 word) = n"
    using assms by (simp add: unat_of_nat take_bit_nat_eq_self)
  ultimately show ?thesis by simp
qed

text \<open>
  Claim C8. In every session whose history fits a \<^verbatim>\<open>size_t\<close>,
  \<^verbatim>\<open>getConversationLength\<close> returns the number of messages minus one, which is the
  number of user and assistant messages in the history; right after the conversation
  is cleared it returns zero.
\<close>

theorem turn_count:
  assumes "length (conversation_history (session model calls)) < 2 ^ 64"
  shows "Suc (unat (getConversationLength (session model calls)))
           = length (conversation_history (session model calls))
         \<and> unat (getConversationLength (session model calls))
           = length (filter is_turn (conversation_history (session model calls)))
         \<and> getConversationLength (clearConversation (session model calls)) = 0"
proof -
  obtain rest where h: "conversation_history (session model calls) = system_message # rest"
    and t: "list_all is_turn rest"
    using session_history by blast
  from assms h have "length rest < 2 ^ 64" by simp
  then have "unat (getConversationLength (session model calls)) = length rest"
    using size_minus_one [of "length rest"] by (simp add: getConversationLength_def h)
  with h t show ?thesis
    by (simp add: filter_turns not_turn_system getConversationLength_def clearConversation_def)
qed

theorem turn_count_witness:
  "conversation_history (session ''llama3.2''
      [SendMessage (answering Map.empty (ok_response ''bad json'')) ''hi''])
     = [system_message, user_message ''hi'', assistant_message []]
   \<and> unat (getConversationLength (session ''llama3.2''
      [SendMessage (answering Map.empty (ok_response ''bad json'')) ''hi''])) = 2"
proof -
  let ?s = "session ''llama3.2''
              [SendMessage (answering Map.empty (ok_response ''bad json'')) ''hi'']"
  have h: "conversation_history ?s = [system_message, user_message ''hi'', assistant_message []]"
    by (simp add: run_simps)
  then have "length (conversation_history ?s) < 2 ^ 64" by simp
  from turn_count [OF this] h show ?thesis by simp
qed

section \<open>Frame of setModel, result of checkOllamaConnection\<close>

text \<open>
  Claim C9. \<^verbatim>\<open>setModel\<close> changes the model name and nothing else: the history, the
  streaming flag, the endpoint and the handle are as before.
\<close>

theorem setModel_frame:
  "model_name (setModel model a) = model
   \<and> conversation_history (setModel model a) = conversation_history a
   \<and> streaming_enabled (setModel model a) = streaming_enabled a
   \<and> api_url (setModel model a) = api_url a
   \<and> curl_httpheader (setModel model a) = curl_httpheader a"
  by (simp add: setModel_def)

text \<open>
  The \<^verbatim>\<open>/model\<close> command, the one caller of \<^verbatim>\<open>setModel\<close>: where its behaviour is
  defined, it leaves the history and the streaming flag as they were, whatever the
  user chooses. After a \<^verbatim>\<open>sendMessage\<close> that reached its request the command has
  no defined behaviour, and neither has \<^verbatim>\<open>/models\<close>.
\<close>

lemma changeModel_frame:
  assumes "changeModel w t = Inr t'"
  shows "conversation_history (assistant t') = conversation_history (assistant t)
         \<and> streaming_enabled (assistant t') = streaming_enabled (assistant t)"
  using assms
  by (auto simp: changeModel_def setModel_def cin_getline_def
           split: sum.splits list.splits option.splits if_splits)

lemma changeModel_listing:
  "changeModel listing_world \<lparr>assistant = new_assistant ''llama3.2'', cin = [''2'']\<rparr>
     = Inr \<lparr>assistant = (new_assistant ''llama3.2'')\<lparr>model_name := ''codellama''\<rparr>, cin = []\<rparr>"
  by (simp add: changeModel_def getAvailableModels_def listing_world_def answering_def
        ok_response_def new_assistant_def cin_getline_def setModel_def)

lemma listing_after_send:
  assumes "json_dump w (chat_payload
             (a\<lparr>conversation_history := conversation_history a @ [user_message message]\<rparr>))
           = Some request"
  shows "getAvailableModels w' (snd (sendMessage w message a)) = Inl UseAfterFree"
  using assms
  by (simp add: sendMessage_def Let_def getAvailableModels_def split: sum.split)

text \<open>
  Claim C7 as it stands fails: when the model-listing endpoint is reached and answers
  with status 500, the request has not succeeded, and \<^verbatim>\<open>checkOllamaConnection\<close>
  returns true. It never looks at the status code.
\<close>

theorem connection_status_counterexample:
  "res (get_tags server_error_world) = CURLE_OK
   \<and> response_code (get_tags server_error_world) = 500
   \<and> checkOllamaConnection server_error_world = Inr True"
  by (simp add: server_error_world_def answering_def checkOllamaConnection_def)

text \<open>
  Claim C7, amended. \<^verbatim>\<open>checkOllamaConnection\<close> throws in no world: it returns a
  boolean. The boolean is true exactly when the handle could be made and libcurl
  reports the transfer as done (\<^verbatim>\<open>CURLE_OK\<close>); the status code and the body of the
  answer have no part in it, so an answer with status 500 counts as a connection. It
  returns false when the connection is refused, the host cannot be resolved or the
  request times out.
\<close>

theorem checkOllamaConnection_result:
  "checkOllamaConnection w = Inr (curl_easy_init w \<and> res (get_tags w) = CURLE_OK)
   \<and> checkOllamaConnection (w\<lparr>get_tags := (get_tags w)\<lparr>response_code := c, data := d\<rparr>\<rparr>)
       = checkOllamaConnection w
   \<and> checkOllamaConnection
        (w\<lparr>get_tags := \<lparr>res = CURLE_COULDNT_CONNECT, response_code = c, data = d\<rparr>\<rparr>)
       = Inr False
   \<and> checkOllamaConnection
        (w\<lparr>get_tags := \<lparr>res = CURLE_COULDNT_RESOLVE_HOST, response_code = c, data = d\<rparr>\<rparr>)
       = Inr False
   \<and> checkOllamaConnection
        (w\<lparr>get_tags := \<lparr>res = CURLE_OPERATION_TIMEDOUT, response_code = c, data = d\<rparr>\<rparr>)
       = Inr False"
  by (simp add: checkOllamaConnection_def CURLE_OK_def CURLE_COULDNT_CONNECT_def
        CURLE_COULDNT_RESOLVE_HOST_def CURLE_OPERATION_TIMEDOUT_def)

section \<open>The request and the growth of the history\<close>

lemma sendMessage_post_chat:
  assumes "json_dump w (chat_payload
             (a\<lparr>conversation_history := conversation_history a @ [user_message message]\<rparr>))
           = Some request"
    and "post_chat w' request = post_chat w request"
  shows "sendMessage (w\<lparr>post_chat := post_chat w'\<rparr>) message a = sendMessage w message a"
  using assms by (simp add: sendMessage_def Let_def)

subsection \<open>Different values have different texts\<close>

text \<open>
  No text of \<^const>\<open>encode\<close> is the start of another: what follows the text of a
  value can be read off without knowing the value.
\<close>

lemma encode_nat_prefix:
  "encode_nat n @ r = encode_nat m @ r' \<Longrightarrow> n = m \<and> r = r'"
proof (induction n arbitrary: m)
  case 0
  then show ?case by (cases m) (simp_all add: encode_nat_def)
next
  case (Suc n)
  then show ?case by (cases m) (simp_all add: encode_nat_def)
qed

lemma encode_int_prefix:
  "encode_int i @ r = encode_int j @ r' \<Longrightarrow> i = j \<and> r = r'"
  by (auto simp: encode_int_def dest!: encode_nat_prefix split: if_splits)

lemma encode_string_prefix:
  "encode_string s @ r = encode_string t @ r' \<Longrightarrow> s = t \<and> r = r'"
  by (auto simp: encode_string_def dest!: encode_nat_prefix)

lemma encode_tag: "\<exists>t rest. encode j = t # rest \<and> t \<noteq> CHR '']''"
  by (cases j) simp_all

lemma encode_elements_prefix:
  assumes "\<And>x j r r'. x \<in> set xs \<Longrightarrow> encode x @ r = encode j @ r' \<Longrightarrow> x = j \<and> r = r'"
    and "concat (map encode xs) @ CHR '']'' # r = concat (map encode ys) @ CHR '']'' # r'"
  shows "xs = ys \<and> r = r'"
  using assms
proof (induction xs arbitrary: ys)
  case Nil
  show ?case
  proof (cases ys)
    case Nil
    with Nil.prems(2) show ?thesis by simp
  next
    case (Cons y ys')
    obtain t rest where "encode y = t # rest" and "t \<noteq> CHR '']''"
      using encode_tag by blast
    with Nil.prems(2) Cons show ?thesis by simp
  qed
next
  case (Cons x xs)
  show ?case
  proof (cases ys)
    case Nil
    obtain t rest where "encode x = t # rest" and "t \<noteq> CHR '']''"
      using encode_tag by blast
    with Cons.prems(2) Nil show ?thesis by simp
  next
    case (Cons y ys')
    with Cons.prems(2)
    have "encode x @ (concat (map encode xs) @ CHR '']'' # r)
            = encode y @ (concat (map encode ys') @ CHR '']'' # r')"
      by simp
    with Cons.prems(1) [of x] have "x = y"
      and rest: "concat (map encode xs) @ CHR '']'' # r = concat (map encode ys') @ CHR '']'' # r'"
      by auto
    from Cons.IH [OF _ rest] Cons.prems(1) have "xs = ys' \<and> r = r'" by auto
    with \<open>x = y\<close> Cons show ?thesis by simp
  qed
qed

lemma encode_members_prefix:
  assumes "\<And>k x j r r'. (k, x) \<in> set ms \<Longrightarrow> encode x @ r = encode j @ r' \<Longrightarrow> x = j \<and> r = r'"
    and "concat (map encode_member ms) @ CHR ''}'' # r
           = concat (map encode_member ns) @ CHR ''}'' # r'"
  shows "ms = ns \<and> r = r'"
  using assms
proof (induction ms arbitrary: ns)
  case Nil
  then show ?case by (cases ns) auto
next
  case (Cons m ms)
  obtain k x where m: "m = (k, x)" by (cases m)
  show ?case
  proof (cases ns)
    case Nil
    with Cons.prems(2) m show ?thesis by simp
  next
    case (Cons n ns')
    obtain k' x' where n: "n = (k', x')" by (cases n)
    from Cons.prems(2) Cons m n
    have "encode_string k @ (encode x @ concat (map encode_member ms) @ CHR ''}'' # r)
            = encode_string k' @ (encode x' @ concat (map encode_member ns') @ CHR ''}'' # r')"
      by simp
    then have "k = k'"
      and v: "encode x @ (concat (map encode_member ms) @ CHR ''}'' # r)
                = encode x' @ (concat (map encode_member ns') @ CHR ''}'' # r')"
      by (auto dest!: encode_string_prefix)
    from Cons.prems(1) [of k x] v m have "x = x'"
      and rest: "concat (map encode_member ms) @ CHR ''}'' # r
                   = concat (map encode_member ns') @ CHR ''}'' # r'"
      by auto
    have "ms = ns' \<and> r = r'"
    proof (rule Cons.IH [OF _ rest])
      fix k0 x0 j0 r0 r0'
      assume "(k0, x0) \<in> set ms" and "encode x0 @ r0 = encode j0 @ r0'"
      then show "x0 = j0 \<and> r0 = r0'"
        using Cons.prems(1) [of k0 x0 r0 j0 r0'] by simp
    qed
    with \<open>k = k'\<close> \<open>x = x'\<close> m n Cons show ?thesis by simp
  qed
qed

lemma encode_prefix:
  "encode j @ r = encode j' @ r' \<Longrightarrow> j = j' \<and> r = r'"
proof (induction j arbitrary: j' r r')
  case JNull
  then show ?case by (cases j') (simp_all split: if_splits)
next
  case (JBoolean b)
  then show ?case by (cases j') (simp_all split: if_splits)
next
  case (JNumber q)
  then show ?case
    by (cases j') (auto split: if_splits dest!: encode_int_prefix simp: prod_eq_iff quotient_of_inject)
next
  case (JString s)
  then show ?case by (cases j') (auto split: if_splits dest!: encode_string_prefix)
next
  case (JArray xs)
  show ?case
  proof (cases j')
    case (JArray ys)
    with JArray.prems
    have "concat (map encode xs) @ CHR '']'' # r = concat (map encode ys) @ CHR '']'' # r'"
      by simp
    with JArray.IH have "xs = ys \<and> r = r'"
      by (intro encode_elements_prefix) auto
    with JArray show ?thesis by simp
  qed (use JArray.prems in \<open>simp_all split: if_splits\<close>)
next
  case (JObject ms)
  show ?case
  proof (cases j')
    case (JObject ns)
    with JObject.prems
    have "concat (map encode_member ms) @ CHR ''}'' # r
            = concat (map encode_member ns) @ CHR ''}'' # r'"
      by simp
    with JObject.IH have "ms = ns \<and> r = r'"
      by (intro encode_members_prefix) fastforce+
    with JObject show ?thesis by simp
  qed (use JObject.prems in \<open>simp_all split: if_splits\<close>)
qed

lemma inj_encode: "inj encode"
proof (rule injI)
  fix x y assume "encode x = encode y"
  then have "encode x @ [] = encode y @ []" by simp
  then show "x = y" using encode_prefix [of x "[]" y "[]"] by simp
qed


subsection \<open>The payload and the request\<close>

text \<open>
  Claim C4. The payload of a chat request is an object with exactly the members
  \<open>messages\<close>, \<open>model\<close> and \<open>stream\<close>: the whole history in its order, the current
  model name and the current streaming flag. In a session the first of the messages
  is the system message. The request that \<^verbatim>\<open>sendMessage\<close> makes is the
  serialisation of the payload of the history with the user message appended: what
  the call returns or throws is read from the answer of the chat endpoint to exactly
  that text, and when the payload cannot be serialised the call throws the
  library's exception.
\<close>

theorem wire_payload:
  "(\<exists>members. chat_payload a = JObject members
       \<and> map fst members = [''messages'', ''model'', ''stream''])
   \<and> subscript (chat_payload a) ''model'' = Inr (JString (model_name a))
   \<and> subscript (chat_payload a) ''messages'' = Inr (JArray (conversation_history a))
   \<and> subscript (chat_payload a) ''stream'' = Inr (JBoolean (streaming_enabled a))
   \<and> (\<exists>rest. subscript (chat_payload (session model calls)) ''messages''
               = Inr (JArray (system_message # rest)))
   \<and> (json_dump w (chat_payload
          (a\<lparr>conversation_history := conversation_history a @ [user_message message]\<rparr>))
        = Some request
      \<longrightarrow> fst (sendMessage w message a) =
            (if res (post_chat w request) \<noteq> CURLE_OK
             then Inl (HttpRequestFailed (res (post_chat w request)))
             else if response_code (post_chat w request) \<noteq> 200
             then Inl (ApiRequestFailed (response_code (post_chat w request))
                         (data (post_chat w request)) (model_name a))
             else decode_reply (json_parse w) (streaming_enabled a)
                    (data (post_chat w request))))
   \<and> (json_dump w (chat_payload
          (a\<lparr>conversation_history := conversation_history a @ [user_message message]\<rparr>))
        = None
      \<longrightarrow> fst (sendMessage w message a) = Inl (JsonException (type_error 316)))"
proof -
  obtain rest where "conversation_history (session model calls) = system_message # rest"
    using session_history by blast
  then have "subscript (chat_payload (session model calls)) ''messages''
               = Inr (JArray (system_message # rest))"
    by (simp add: chat_payload_def)
  moreover have "fst (sendMessage w message a) =
            (if res (post_chat w request) \<noteq> CURLE_OK
             then Inl (HttpRequestFailed (res (post_chat w request)))
             else if response_code (post_chat w request) \<noteq> 200
             then Inl (ApiRequestFailed (response_code (post_chat w request))
                         (data (post_chat w request)) (model_name a))
             else decode_reply (json_parse w) (streaming_enabled a)
                    (data (post_chat w request)))"
    if "json_dump w (chat_payload
          (a\<lparr>conversation_history := conversation_history a @ [user_message message]\<rparr>))
        = Some request"
    using that by (simp add: sendMessage_def Let_def split: sum.split)
  moreover have "fst (sendMessage w message a) = Inl (JsonException (type_error 316))"
    if "json_dump w (chat_payload
          (a\<lparr>conversation_history := conversation_history a @ [user_message message]\<rparr>))
        = None"
    using that by (simp add: sendMessage_def)
  ultimately show ?thesis
    by (simp add: chat_payload_def)
qed

text \<open>
  In \<^const>\<open>posting_world\<close> the serialisation of null and that of the payload without
  the user message are refused; the call gets the answer 404, which the world gives
  to the payload with the user message only.
\<close>

theorem wire_payload_witness:
  "fst (sendMessage posting_world ''hi'' (new_assistant ''llama3.2''))
     = Inl (ApiRequestFailed 404 ''model not found'' ''llama3.2'')
   \<and> res (post_chat posting_world (encode JNull)) = CURLE_COULDNT_CONNECT
   \<and> res (post_chat posting_world (encode (chat_payload (new_assistant ''llama3.2''))))
     = CURLE_COULDNT_CONNECT"
proof -
  let ?a1 = "(new_assistant ''llama3.2'')\<lparr>conversation_history :=
               conversation_history (new_assistant ''llama3.2'') @ [user_message ''hi'']\<rparr>"
  have same: "encode x = encode y \<longleftrightarrow> x = y" for x y
    by (rule inj_eq [OF inj_encode])
  have "json_dump posting_world (chat_payload ?a1) = Some (encode (chat_payload ?a1))"
    by (simp add: posting_world_def)
  with wire_payload [of "new_assistant ''llama3.2''" "''llama3.2''" "[]" posting_world
      "''hi''" "encode (chat_payload ?a1)"]
  have "fst (sendMessage posting_world ''hi'' (new_assistant ''llama3.2'')) =
          (if res (post_chat posting_world (encode (chat_payload ?a1))) \<noteq> CURLE_OK
           then Inl (HttpRequestFailed (res (post_chat posting_world (encode (chat_payload ?a1)))))
           else if response_code (post_chat posting_world (encode (chat_payload ?a1))) \<noteq> 200
           then Inl (ApiRequestFailed
                  (response_code (post_chat posting_world (encode (chat_payload ?a1))))
                  (data (post_chat posting_world (encode (chat_payload ?a1))))
                  (model_name (new_assistant ''llama3.2'')))
           else decode_reply (json_parse posting_world)
                  (streaming_enabled (new_assistant ''llama3.2''))
                  (data (post_chat posting_world (encode (chat_payload ?a1)))))"
    by blast
  moreover have "post_chat posting_world (encode (chat_payload ?a1))
                   = \<lparr>res = CURLE_OK, response_code = 404, data = ''model not found''\<rparr>"
    by (simp add: posting_world_def chat_payload_def new_assistant_def same del: encode.simps)
  moreover have "res (post_chat posting_world (encode JNull)) = CURLE_COULDNT_CONNECT"
    by (simp add: posting_world_def same del: encode.simps)
  moreover have "res (post_chat posting_world (encode (chat_payload (new_assistant ''llama3.2''))))
                   = CURLE_COULDNT_CONNECT"
    by (simp add: posting_world_def chat_payload_def new_assistant_def same del: encode.simps)
  ultimately show ?thesis
    by (simp add: new_assistant_def)
qed

text \<open>
  Claim C10. Whatever the world answers, \<^verbatim>\<open>sendMessage\<close> leaves the history as
  it was with the user message appended, followed by the assistant message when a
  reply is returned and by nothing when an exception is thrown: two more messages on
  success, one more on any failure. The user message of a failed call is among the
  messages of the payload of the next request. The user message is in the history
  before the exchange: the one request the call makes is the serialisation of the
  payload whose messages end with it.
\<close>

theorem sendMessage_growth:
  "conversation_history (snd (sendMessage w message a))
     = conversation_history a @ user_message message #
         (case fst (sendMessage w message a) of
            Inl e \<Rightarrow> []
          | Inr reply \<Rightarrow> [assistant_message reply])
   \<and> length (conversation_history (snd (sendMessage w message a)))
     = length (conversation_history a) +
         (case fst (sendMessage w message a) of Inl e \<Rightarrow> 1 | Inr reply \<Rightarrow> 2)
   \<and> (\<exists>later. subscript (chat_payload
          ((snd (sendMessage w message a))\<lparr>conversation_history :=
             conversation_history (snd (sendMessage w message a)) @ [user_message next]\<rparr>))
          ''messages''
        = Inr (JArray (conversation_history a @ user_message message # later)))
   \<and> (json_dump w (chat_payload
          (a\<lparr>conversation_history := conversation_history a @ [user_message message]\<rparr>))
        = Some request
      \<longrightarrow> sendMessage (w\<lparr>post_chat := (\<lambda>r. post_chat w request)\<rparr>) message a
            = sendMessage w message a)"
proof -
  have "sendMessage (w\<lparr>post_chat := post_chat (w\<lparr>post_chat := (\<lambda>r. post_chat w request)\<rparr>)\<rparr>)
          message a = sendMessage w message a"
    if "json_dump w (chat_payload
          (a\<lparr>conversation_history := conversation_history a @ [user_message message]\<rparr>))
        = Some request"
    using that by (rule sendMessage_post_chat) simp
  then show ?thesis
    using sendMessage_outcome [of w message a]
    by (auto simp: chat_payload_def)
qed

theorem sendMessage_growth_witness:
  "sendMessage refused_world ''hi'' (new_assistant ''llama3.2'')
     = (Inl (HttpRequestFailed CURLE_COULDNT_CONNECT),
        (new_assistant ''llama3.2'')\<lparr>conversation_history :=
           [system_message, user_message ''hi''], curl_httpheader := FreedList\<rparr>)
   \<and> sendMessage (refused_world\<lparr>post_chat := (\<lambda>r. post_chat refused_world ''{}'')\<rparr>)
        ''hi'' (new_assistant ''llama3.2'')
     = sendMessage refused_world ''hi'' (new_assistant ''llama3.2'')"
proof -
  have "json_dump refused_world (chat_payload
          ((new_assistant ''llama3.2'')\<lparr>conversation_history :=
             conversation_history (new_assistant ''llama3.2'') @ [user_message ''hi'']\<rparr>))
        = Some ''{}''"
    by (simp add: refused_world_def answering_def)
  with sendMessage_growth [of refused_world "''hi''" "new_assistant ''llama3.2''" "[]" "''{}''"]
  have "sendMessage (refused_world\<lparr>post_chat := (\<lambda>r. post_chat refused_world ''{}'')\<rparr>)
          ''hi'' (new_assistant ''llama3.2'')
        = sendMessage refused_world ''hi'' (new_assistant ''llama3.2'')"
    by blast
  moreover have "sendMessage refused_world ''hi'' (new_assistant ''llama3.2'')
     = (Inl (HttpRequestFailed CURLE_COULDNT_CONNECT),
        (new_assistant ''llama3.2'')\<lparr>conversation_history :=
           [system_message, user_message ''hi''], curl_httpheader := FreedList\<rparr>)"
    by (simp add: refused_world_def sendMessage_def Let_def answering_def new_assistant_def
          CURLE_OK_def CURLE_COULDNT_CONNECT_def)
  ultimately show ?thesis by simp
qed

section \<open>A status other than 200\<close>

text \<open>
  Claim C3 as it stands fails: the session after a call that failed with status 404
  is not the session before it, since the user message of the call has been appended.
\<close>

theorem api_error_session_counterexample:
  "fst (sendMessage not_found_world ''hi'' (new_assistant ''llama3.2''))
     = Inl (ApiRequestFailed 404 ''model not found'' ''llama3.2'')
   \<and> conversation_history (snd (sendMessage not_found_world ''hi'' (new_assistant ''llama3.2'')))
     = [system_message, user_message ''hi'']
   \<and> conversation_history (snd (sendMessage not_found_world ''hi'' (new_assistant ''llama3.2'')))
     \<noteq> conversation_history (new_assistant ''llama3.2'')"
  by (simp add: not_found_world_def run_simps)

text \<open>
  Claim C3, amended. When the request is sent and answered with a status other than
  200, \<^verbatim>\<open>sendMessage\<close> throws the error that carries the status code, the body and
  the model name; no assistant message is appended, and of the history, the model
  name, the streaming flag and the endpoint only the history differs from before the
  call, by the user message appended to it. (The handle is left with the freed
  header list, as after every request.) The pass of the loop that made the call ends
  in the handler, and the loop goes on.
\<close>

theorem api_error_keeps_user_turn:
  assumes "json_dump w (chat_payload
             (a\<lparr>conversation_history := conversation_history a @ [user_message message]\<rparr>))
           = Some request"
    and "res (post_chat w request) = CURLE_OK"
    and "response_code (post_chat w request) \<noteq> 200"
    and "message \<noteq> []" and "\<not> isCommand message"
  shows "sendMessage w message a
           = (Inl (ApiRequestFailed (response_code (post_chat w request))
                     (data (post_chat w request)) (model_name a)),
              a\<lparr>conversation_history := conversation_history a @ [user_message message],
                curl_httpheader := FreedList\<rparr>)
         \<and> run_iteration w \<lparr>assistant = a, cin = message # inputs\<rparr>
           = Inr (Caught (ApiRequestFailed (response_code (post_chat w request))
                            (data (post_chat w request)) (model_name a)),
                  \<lparr>assistant = a\<lparr>conversation_history :=
                                   conversation_history a @ [user_message message],
                                 curl_httpheader := FreedList\<rparr>,
                   cin = inputs\<rparr>)
         \<and> goes_on (run_iteration w \<lparr>assistant = a, cin = message # inputs\<rparr>)"
proof -
  have s: "sendMessage w message a
           = (Inl (ApiRequestFailed (response_code (post_chat w request))
                     (data (post_chat w request)) (model_name a)),
              a\<lparr>conversation_history := conversation_history a @ [user_message message],
                curl_httpheader := FreedList\<rparr>)"
    using assms(1-3) by (simp add: sendMessage_def Let_def)
  with assms(4,5) show ?thesis
    by (simp add: run_iteration_def getInput_def cin_getline_def goes_on_def)
qed

theorem api_error_keeps_user_turn_witness:
  "run_iteration not_found_world
     \<lparr>assistant = new_assistant ''llama3.2'', cin = [''hi'', ''/quit'']\<rparr>
     = Inr (Caught (ApiRequestFailed 404 ''model not found'' ''llama3.2''),
            \<lparr>assistant = (new_assistant ''llama3.2'')\<lparr>conversation_history :=
                            [system_message, user_message ''hi''],
                            curl_httpheader := FreedList\<rparr>,
             cin = [''/quit'']\<rparr>)"
proof -
  have "json_dump not_found_world (chat_payload
          ((new_assistant ''llama3.2'')\<lparr>conversation_history :=
             conversation_history (new_assistant ''llama3.2'') @ [user_message ''hi'']\<rparr>))
        = Some ''{}''"
    and "res (post_chat not_found_world ''{}'') = CURLE_OK"
    and "response_code (post_chat not_found_world ''{}'') \<noteq> 200"
    and "''hi'' \<noteq> []" and "\<not> isCommand ''hi''"
    by (simp_all add: not_found_world_def answering_def isCommand_def)
  from api_error_keeps_user_turn [OF this, of "[''/quit'']"] show ?thesis
    by (simp add: not_found_world_def answering_def new_assistant_def)
qed

section \<open>Decoding the reply\<close>

text \<open>
  The test \<^verbatim>\<open>contains\<close> followed by \<^verbatim>\<open>operator[]\<close> is a lookup of the member, so
  the reading of the reply text is a lookup of \<open>message\<close>, a lookup of \<open>content\<close> in
  it, and the conversion of what is found to a string.
\<close>

lemma contains_spec_field: "contains j key = (spec_field j key \<noteq> None)"
  by (cases j) simp_all

lemma subscript_spec_field: "spec_field j key = Some v \<Longrightarrow> subscript j key = Inr v"
  by (cases j) simp_all

lemma message_content_spec:
  "message_content j =
     (case spec_field j ''message'' of
        None \<Rightarrow> Inr None
      | Some m \<Rightarrow>
          (case spec_field m ''content'' of
             None \<Rightarrow> Inr None
           | Some c \<Rightarrow> (case get_string c of Inl e \<Rightarrow> Inl e | Inr s \<Rightarrow> Inr (Some s))))"
  by (auto simp: message_content_def contains_spec_field subscript_spec_field split: option.split)

lemma get_string_cases:
  "get_string c = (case c of JString s \<Rightarrow> Inr s | _ \<Rightarrow> Inl (type_error 302))"
  by (cases c) simp_all

text \<open>
  Claim C5 as it stands fails: with streaming disabled, a body that parses and whose
  \<open>message.content\<close> is the number 5 gives no reply at all. The conversion of the
  number to a string throws, and the call throws the JSON parsing error, although
  the field is present and the parse of the body did not fail.
\<close>

theorem single_object_number_counterexample:
  "json_parse number_world (data (post_chat number_world ''{}''))
     = Some (JObject [(''message'', JObject [(''content'', JNumber 5)])])
   \<and> spec_field (JObject [(''content'', JNumber 5)]) ''content'' = Some (JNumber 5)
   \<and> fst (sendMessage number_world ''hi'' (setStreamingEnabled False (new_assistant ''llama3.2'')))
     = Inl (JsonParsingError (type_error 302))"
  by (simp add: number_world_def setStreamingEnabled_def run_simps)

text \<open>
  Claim C5, amended. With streaming disabled, a request that is answered with status
  200 is decoded from the whole body as one JSON value. When the body does not parse,
  the call throws the JSON parsing error and returns no reply. When it parses and
  \<open>message.content\<close> is absent, the reply is empty; when \<open>message.content\<close> is
  present and a string, the reply is that string. When \<open>message.content\<close> is present
  and not a string, the call throws the JSON parsing error as well. A reply that is
  returned is appended as the assistant message.
\<close>

theorem single_object_reply:
  assumes "\<not> streaming_enabled a"
    and "json_dump w (chat_payload
           (a\<lparr>conversation_history := conversation_history a @ [user_message message]\<rparr>))
         = Some request"
    and "res (post_chat w request) = CURLE_OK"
    and "response_code (post_chat w request) = 200"
  shows "sendMessage w message a =
     (case json_parse w (data (post_chat w request)) of
        None \<Rightarrow>
          (Inl (JsonParsingError parse_error),
           a\<lparr>conversation_history := conversation_history a @ [user_message message],
             curl_httpheader := FreedList\<rparr>)
      | Some response_json \<Rightarrow>
          (case spec_field response_json ''message'' of
             None \<Rightarrow>
               (Inr [], a\<lparr>conversation_history :=
                  conversation_history a @ [user_message message, assistant_message []],
                  curl_httpheader := FreedList\<rparr>)
           | Some m \<Rightarrow>
               (case spec_field m ''content'' of
                  None \<Rightarrow>
                    (Inr [], a\<lparr>conversation_history :=
                       conversation_history a @ [user_message message, assistant_message []],
                       curl_httpheader := FreedList\<rparr>)
                | Some (JString content) \<Rightarrow>
                    (Inr content, a\<lparr>conversation_history :=
                       conversation_history a @ [user_message message, assistant_message content],
                       curl_httpheader := FreedList\<rparr>)
                | Some other \<Rightarrow>
                    (Inl (JsonParsingError (type_error 302)),
                     a\<lparr>conversation_history :=
                        conversation_history a @ [user_message message],
                        curl_httpheader := FreedList\<rparr>))))"
  using assms
  by (simp add: sendMessage_def Let_def decode_reply_def message_content_spec get_string_cases
           split: option.split json.split)

theorem single_object_reply_witness:
  "sendMessage hi_there_world ''hi'' (setStreamingEnabled False (new_assistant ''llama3.2''))
     = (Inr ''Hi there'',
        (setStreamingEnabled False (new_assistant ''llama3.2''))\<lparr>conversation_history :=
           [system_message, user_message ''hi'', assistant_message ''Hi there''],
           curl_httpheader := FreedList\<rparr>)"
proof -
  let ?a = "setStreamingEnabled False (new_assistant ''llama3.2'')"
  have "\<not> streaming_enabled ?a"
    and "json_dump hi_there_world (chat_payload
           (?a\<lparr>conversation_history := conversation_history ?a @ [user_message ''hi'']\<rparr>))
         = Some ''{}''"
    and "res (post_chat hi_there_world ''{}'') = CURLE_OK"
    and "response_code (post_chat hi_there_world ''{}'') = 200"
    by (simp_all add: hi_there_world_def answering_def ok_response_def
          setStreamingEnabled_def new_assistant_def)
  from single_object_reply [OF this] show ?thesis
    by (simp add: hi_there_world_def answering_def ok_response_def
          setStreamingEnabled_def new_assistant_def)
qed

subsection \<open>The streaming loop against the rule of the specification\<close>

lemma spec_lines_from_one:
  "CHR 0x0A \<notin> set body \<Longrightarrow> spec_lines_from line body = [line @ body]"
  by (induction body arbitrary: line) auto

lemma spec_lines_from_append:
  "spec_lines_from line (b1 @ CHR 0x0A # b2) = spec_lines_from line b1 @ spec_lines_from [] b2"
  by (induction b1 arbitrary: line) simp_all

lemma spec_lines_one: "CHR 0x0A \<notin> set line \<Longrightarrow> spec_lines line = [line]"
  by (simp add: spec_lines_def spec_lines_from_one)

lemma spec_lines_append:
  "spec_lines (b1 @ CHR 0x0A # b2) = spec_lines b1 @ spec_lines b2"
  by (simp add: spec_lines_def spec_lines_from_append)

lemma spec_stream_reply_append:
  "spec_stream_reply parse (b1 @ CHR 0x0A # b2)
     = spec_stream_reply parse b1 @ spec_stream_reply parse b2"
  by (simp add: spec_stream_reply_def spec_lines_append)

lemma spec_stream_reply_empty: "spec_stream_reply parse [] = []"
  by (simp add: spec_stream_reply_def spec_lines_def)

text \<open>One pass of the loop body appends what the rule gives for that line alone.\<close>

lemma stream_line_spec:
  assumes "CHR 0x0A \<notin> set line"
  shows "stream_line parse line reply = reply @ spec_stream_reply parse line"
  using assms
  by (simp add: stream_line_def spec_stream_reply_def spec_lines_one strip_data_def
        spec_chunk_def message_content_spec get_string_cases Let_def
        split: option.split json.split)

text \<open>
  What \<^const>\<open>getline\<close> takes from a stream that is not empty: all of it, when it holds
  no newline, or the part before the first newline, which it drops.
\<close>

lemma stream_split:
  fixes stream :: string
  defines "line \<equiv> takeWhile (\<lambda>c. c \<noteq> CHR 0x0A) stream"
    and "rest \<equiv> drop 1 (dropWhile (\<lambda>c. c \<noteq> CHR 0x0A) stream)"
  shows "(line = stream \<and> rest = []) \<or> line @ CHR 0x0A # rest = stream"
proof (cases "dropWhile (\<lambda>c. c \<noteq> CHR 0x0A) stream")
  case Nil
  have "line @ dropWhile (\<lambda>c. c \<noteq> CHR 0x0A) stream = stream"
    unfolding line_def by (rule takeWhile_dropWhile_id)
  with Nil have "line = stream" by (simp only: append_Nil2)
  moreover from Nil have "rest = []" by (simp only: rest_def drop_Nil)
  ultimately show ?thesis by blast
next
  case (Cons c cs)
  have "\<not> (hd (dropWhile (\<lambda>c. c \<noteq> CHR 0x0A) stream) \<noteq> CHR 0x0A)"
    by (rule hd_dropWhile) (simp only: Cons list.distinct not_False_eq_True)
  with Cons have c: "c = CHR 0x0A" by (simp only: list.sel not_not)
  have "line @ dropWhile (\<lambda>c. c \<noteq> CHR 0x0A) stream = stream"
    unfolding line_def by (rule takeWhile_dropWhile_id)
  moreover have "rest = cs" by (simp only: rest_def Cons) simp
  ultimately have "line @ CHR 0x0A # rest = stream"
    by (simp only: Cons c)
  then show ?thesis by blast
qed

lemma stream_loop_spec:
  "stream_loop parse stream reply = reply @ spec_stream_reply parse stream"
proof (induction parse stream reply rule: stream_loop.induct)
  case (1 parse stream reply)
  show ?case
  proof (cases "stream = []")
    case True
    then show ?thesis
      by (simp add: stream_loop.simps getline_def spec_stream_reply_empty)
  next
    case False
    define line where "line = takeWhile (\<lambda>c. c \<noteq> CHR 0x0A) stream"
    define rest where "rest = drop 1 (dropWhile (\<lambda>c. c \<noteq> CHR 0x0A) stream)"
    have g: "getline stream = Some (line, rest)"
      using False by (simp add: getline_def line_def rest_def)
    have nl: "CHR 0x0A \<notin> set line"
      unfolding line_def by (auto dest: set_takeWhileD)
    have pieces: "spec_stream_reply parse line @ spec_stream_reply parse rest
                    = spec_stream_reply parse stream"
    proof -
      from stream_split [of stream]
      consider "line = stream" and "rest = []" | "line @ CHR 0x0A # rest = stream"
        unfolding line_def rest_def by blast
      then show ?thesis
      proof cases
        case 1
        then show ?thesis by (simp only: spec_stream_reply_empty append_Nil2)
      next
        case 2
        have "spec_stream_reply parse (line @ CHR 0x0A # rest)
                = spec_stream_reply parse line @ spec_stream_reply parse rest"
          by (rule spec_stream_reply_append)
        with 2 show ?thesis by (simp only:)
      qed
    qed
    have "stream_loop parse stream reply
            = stream_loop parse rest (stream_line parse line reply)"
      using g by (subst stream_loop.simps) simp
    also have "\<dots> = stream_line parse line reply @ spec_stream_reply parse rest"
      using "1.IH" [OF g refl] .
    also have "\<dots> = reply @ spec_stream_reply parse line @ spec_stream_reply parse rest"
      using nl by (simp add: stream_line_spec)
    finally show ?thesis by (simp only: pieces)
  qed
qed

text \<open>
  Claim C2 as it stands fails: with streaming enabled, a line that parses and whose
  \<open>message.content\<close> is the number 5 adds nothing to the reply. The field is
  present, and the reply is empty, which is not the value of the field.
\<close>

theorem streaming_number_counterexample:
  "json_parse number_world (data (post_chat number_world ''{}''))
     = Some (JObject [(''message'', JObject [(''content'', JNumber 5)])])
   \<and> fst (sendMessage number_world ''hi'' (new_assistant ''llama3.2'')) = Inr []
   \<and> spec_content_is (JObject [(''message'', JObject [(''content'', JNumber 5)])]) []
       = False"
  by (simp add: number_world_def spec_content_is_def run_simps)

text \<open>
  Claim C2, amended. With streaming enabled, a request that is answered with status
  200 returns the reply that the rule gives for the body: the lines between newlines,
  the prefix \<^verbatim>\<open>data: \<close> stripped, empty lines and \<^verbatim>\<open>[DONE]\<close> dropped, and of each
  remaining line that parses the \<open>message.content\<close> when it is present and a string,
  concatenated in the order of the lines. A line that does not parse, and a line
  whose \<open>message.content\<close> is present and not a string, is skipped. The reply of two
  bodies joined by a newline is the reply of the first followed by the reply of the
  second, so no line decides what a later line gives, and the lines after a line
  that does not parse give what they give without it.
\<close>

theorem streaming_reply:
  assumes "streaming_enabled a"
    and "json_dump w (chat_payload
           (a\<lparr>conversation_history := conversation_history a @ [user_message message]\<rparr>))
         = Some request"
    and "res (post_chat w request) = CURLE_OK"
    and "response_code (post_chat w request) = 200"
  shows "sendMessage w message a =
           (Inr (spec_stream_reply (json_parse w) (data (post_chat w request))),
            a\<lparr>conversation_history := conversation_history a @
               [user_message message,
                assistant_message
                  (spec_stream_reply (json_parse w) (data (post_chat w request)))],
              curl_httpheader := FreedList\<rparr>)
         \<and> spec_stream_reply (json_parse w) (b1 @ CHR 0x0A # b2)
             = spec_stream_reply (json_parse w) b1 @ spec_stream_reply (json_parse w) b2
         \<and> (CHR 0x0A \<notin> set bad \<and> json_parse w (strip_data bad) = None
              \<longrightarrow> spec_stream_reply (json_parse w) (bad @ CHR 0x0A # b2)
                    = spec_stream_reply (json_parse w) b2)"
proof -
  have "CHR 0x0A \<notin> set bad \<Longrightarrow> json_parse w (strip_data bad) = None
          \<Longrightarrow> spec_stream_reply (json_parse w) bad = []"
    by (simp add: spec_stream_reply_def spec_lines_one spec_chunk_def strip_data_def)
  then show ?thesis
    using assms
    by (simp add: sendMessage_def Let_def decode_reply_def stream_loop_spec
          spec_stream_reply_append)
qed

lemma hello_reply:
  "spec_stream_reply (json_parse hello_world) (data (post_chat hello_world ''{}'')) = ''Hello''"
  by (simp add: hello_world_def answering_def ok_response_def spec_stream_reply_def
        spec_chunk_def spec_lines_def)

theorem streaming_reply_witness:
  "sendMessage hello_world ''hi'' (new_assistant ''llama3.2'')
     = (Inr ''Hello'',
        (new_assistant ''llama3.2'')\<lparr>conversation_history :=
           [system_message, user_message ''hi'', assistant_message ''Hello''],
           curl_httpheader := FreedList\<rparr>)"
proof -
  have "streaming_enabled (new_assistant ''llama3.2'')"
    and "json_dump hello_world (chat_payload
           ((new_assistant ''llama3.2'')\<lparr>conversation_history :=
              conversation_history (new_assistant ''llama3.2'') @ [user_message ''hi'']\<rparr>))
         = Some ''{}''"
    and "res (post_chat hello_world ''{}'') = CURLE_OK"
    and "response_code (post_chat hello_world ''{}'') = 200"
    by (simp_all add: hello_world_def answering_def ok_response_def new_assistant_def)
  from streaming_reply [OF this] show ?thesis
    by (simp add: hello_reply) (simp add: new_assistant_def)
qed

section \<open>The model listing\<close>

lemma collect_names_text:
  "names_are_text entries \<Longrightarrow> collect_names entries models = models @ spec_model_names entries"
proof (induction entries arbitrary: models)
  case Nil
  show ?case by (simp add: spec_model_names_def)
next
  case (Cons entry entries)
  from Cons.prems have rest: "names_are_text entries"
    by (simp add: names_are_text_def)
  show ?case
  proof (cases "spec_field entry ''name''")
    case None
    with Cons.IH [OF rest] show ?thesis
      by (simp add: contains_spec_field spec_model_names_def)
  next
    case (Some v)
    with Cons.prems obtain name where "v = JString name"
      by (cases v) (simp_all add: names_are_text_def)
    with Some Cons.IH [OF rest] show ?thesis
      by (simp add: contains_spec_field subscript_spec_field spec_model_names_def)
  qed
qed

text \<open>
  When every name that is present is a string, the listing is the name of each entry
  that has one, in the order of the array.
\<close>

lemma getAvailableModels_names:
  assumes "curl_httpheader a = NoList"
    and "res (get_tags w) = CURLE_OK"
    and "json_parse w (data (get_tags w)) = Some response_json"
    and "spec_field response_json ''models'' = Some (JArray entries)"
    and "names_are_text entries"
  shows "getAvailableModels w a = Inr (spec_model_names entries)"
  using assms
  by (simp add: getAvailableModels_def contains_spec_field subscript_spec_field
        collect_names_text)

text \<open>
  When the request fails, the body does not parse or there is no member \<open>models\<close>,
  the listing is empty.
\<close>

lemma getAvailableModels_empty:
  assumes "curl_httpheader a = NoList"
    and "res (get_tags w) \<noteq> CURLE_OK
           \<or> json_parse w (data (get_tags w)) = None
           \<or> (\<exists>response_json. json_parse w (data (get_tags w)) = Some response_json
                \<and> spec_field response_json ''models'' = None)"
  shows "getAvailableModels w a = Inr []"
  using assms
  by (auto simp: getAvailableModels_def contains_spec_field)

text \<open>
  Claim C6. On a fresh assistant, for the listing
  \<^verbatim>\<open>{"models":[{"name":"a"},{"name":5},{"name":"b"}]}\<close> the conversion of the second name throws inside the loop; the handler, whose comment
  says that it returns an empty vector, returns the names pushed before. The result is
  neither the names of the entries that have one nor the empty sequence.
\<close>

theorem partial_model_list:
  "getAvailableModels partial_names_world (new_assistant ''llama3.2'') = Inr [''a'']
   \<and> spec_model_names
        [JObject [(''name'', JString ''a'')],
         JObject [(''name'', JNumber 5)],
         JObject [(''name'', JString ''b'')]] = [''a'', ''b'']"
  by (simp add: getAvailableModels_def partial_names_world_def answering_def ok_response_def
        spec_model_names_def new_assistant_def)

end
